theory Spec2Isabelle
  imports Complex_Main
begin

section \<open>The SV genotyper's driver: \<open>svgenotyper/genotype.py\<close>\<close>

text \<open>
  The module is glue code around numpy, torch and pyro: it marshals dictionaries, reads
  files and calls collaborators. The embedding keeps Python's exceptions as values, its
  dictionaries as maps and its process-wide state as an explicit record.
\<close>

subsection \<open>Python values\<close>

text \<open>
  The exceptions the module can meet. \<open>KeyError\<close> carries the key that was looked up, as
  Python's does; \<open>RuntimeError\<close> carries its message; \<open>OtherError\<close> is any other exception
  of a collaborator, by its name.
\<close>

datatype py_error =
    KeyError string
  | IndexError
  | TypeError
  | RuntimeError string
  | OtherError string

text \<open>
  A numpy array of any dimension, over an element type \<open>'a\<close> that stands for the array's
  floating-point numbers. Nothing is assumed of \<open>'a\<close> but that it has a product (class
  \<open>times\<close>): no law of arithmetic enters any proof. A zero-dimensional array (a numpy
  scalar) is \<open>NdScalar\<close>; an array of dimension \<open>d + 1\<close> is the list of its entries along
  the first axis, each of dimension \<open>d\<close>.
\<close>

datatype 'a ndarray = NdScalar 'a | NdArray "'a ndarray list"

text \<open>
  What a field of an output record holds: Python's integer literal (the \<open>0\<close> of lines 71,
  75 and 79) or a numpy value.
\<close>

datatype 'a pyval = PyInt int | Np "'a ndarray"

text \<open>
  A value of the hyperparameter file \<open>vars.json\<close>: a number (\<open>k\<close>, the \<open>mu_eps\<close> and
  \<open>var_phi\<close> priors, \<open>read_length\<close>) or a string (\<open>loss\<close>).
\<close>

datatype 'a json = JNum 'a | JStr string

type_synonym 'a site_stats = "string \<rightharpoonup> 'a ndarray"
type_synonym 'a stats = "string \<rightharpoonup> 'a site_stats"
type_synonym 'a params = "string \<rightharpoonup> 'a json"

text \<open>The dictionary that \<open>get_output\<close> appends for one variant (lines 84 to 99).\<close>

record 'a variant_output =
  vid :: string
  freq_z :: "'a ndarray"
  p_m_pe :: "'a pyval"
  p_m_sr1 :: "'a ndarray"
  p_m_sr2 :: "'a ndarray"
  eps_pe :: "'a pyval"
  eps_sr1 :: "'a ndarray"
  eps_sr2 :: "'a ndarray"
  phi_pe :: "'a pyval"
  phi_sr1 :: "'a ndarray"
  phi_sr2 :: "'a ndarray"

subsection \<open>Python's primitive operations\<close>

text \<open>Sequencing of computations that may raise: the first exception ends the evaluation.\<close>

definition and_then :: "py_error + 'x \<Rightarrow> ('x \<Rightarrow> py_error + 'y) \<Rightarrow> py_error + 'y" where
  "and_then r f = (case r of Inl e \<Rightarrow> Inl e | Inr x \<Rightarrow> f x)"

text \<open>\<open>d[k]\<close> on a dictionary: \<open>KeyError\<close> when the key is absent.\<close>

definition dict_getitem :: "(string \<rightharpoonup> 'v) \<Rightarrow> string \<Rightarrow> py_error + 'v" where
  "dict_getitem d k = (case d k of None \<Rightarrow> Inl (KeyError k) | Some v \<Rightarrow> Inr v)"

text \<open>\<open>k in d\<close> on a dictionary.\<close>

definition dict_contains :: "(string \<rightharpoonup> 'v) \<Rightarrow> string \<Rightarrow> bool" where
  "dict_contains d k = (case d k of None \<Rightarrow> False | Some v \<Rightarrow> True)"

text \<open>\<open>xs[i]\<close> on a list, for an index of \<open>range\<close> (never negative).\<close>

definition list_getitem :: "'v list \<Rightarrow> nat \<Rightarrow> py_error + 'v" where
  "list_getitem xs i = (if i < length xs then Inr (xs ! i) else Inl IndexError)"

text \<open>
  \<open>a[i]\<close> on a numpy array: the \<open>i\<close>-th entry along the first axis; \<open>IndexError\<close> when the
  array is zero-dimensional or has no such entry.
\<close>

definition nd_getitem :: "'a ndarray \<Rightarrow> nat \<Rightarrow> py_error + 'a ndarray" where
  "nd_getitem a i =
     (case a of
        NdScalar x \<Rightarrow> Inl IndexError
      | NdArray xs \<Rightarrow> if i < length xs then Inr (xs ! i) else Inl IndexError)"

text \<open>
  \<open>a[i, :]\<close> on a numpy array: row \<open>i\<close> of an array of at least two dimensions;
  \<open>IndexError\<close> when the array has fewer than two dimensions (too many indices) or no
  such row.
\<close>

definition nd_getrow :: "'a ndarray \<Rightarrow> nat \<Rightarrow> py_error + 'a ndarray" where
  "nd_getrow a i =
     (case a of
        NdScalar x \<Rightarrow> Inl IndexError
      | NdArray xs \<Rightarrow>
          if i < length xs then
            (case xs ! i of
               NdScalar y \<Rightarrow> Inl IndexError
             | NdArray ys \<Rightarrow> Inr (NdArray ys))
          else Inl IndexError)"

text \<open>The product of a numpy value and a number, taken entry by entry.\<close>

fun nd_scale :: "'a::times ndarray \<Rightarrow> 'a \<Rightarrow> 'a ndarray" where
  "nd_scale (NdScalar x) m = NdScalar (x * m)"
| "nd_scale (NdArray xs) m = NdArray (map (\<lambda>x. nd_scale x m) xs)"

text \<open>
  \<open>a * p\<close> for a numpy value \<open>a\<close> and a value \<open>p\<close> of the hyperparameter file: numpy has no
  product of a floating-point array and a string, and raises \<open>TypeError\<close>.
\<close>

definition np_mul :: "'a::times ndarray \<Rightarrow> 'a json \<Rightarrow> py_error + 'a ndarray" where
  "np_mul a p = (case p of JNum m \<Rightarrow> Inr (nd_scale a m) | JStr s \<Rightarrow> Inl TypeError)"

subsection \<open>\<open>get_output\<close> (lines 63 to 100)\<close>

text \<open>\<open>stats[site]['mean'][i]\<close>: three lookups, left to right.\<close>

definition site_mean :: "'a stats \<Rightarrow> string \<Rightarrow> nat \<Rightarrow> py_error + 'a ndarray" where
  "site_mean stats site i =
     and_then (dict_getitem stats site) (\<lambda>d.
     and_then (dict_getitem d ''mean'') (\<lambda>m.
     nd_getitem m i))"

text \<open>\<open>stats[site]['mean'][i, :]\<close>.\<close>

definition site_mean_row :: "'a stats \<Rightarrow> string \<Rightarrow> nat \<Rightarrow> py_error + 'a ndarray" where
  "site_mean_row stats site i =
     and_then (dict_getitem stats site) (\<lambda>d.
     and_then (dict_getitem d ''mean'') (\<lambda>m.
     nd_getrow m i))"

text \<open>
  \<open>stats[site]['mean'][i] * params[prior]\<close>: the left operand is evaluated first, then
  the lookup in \<open>params\<close>, then the product.
\<close>

definition scaled_mean ::
  "'a::times stats \<Rightarrow> 'a params \<Rightarrow> string \<Rightarrow> string \<Rightarrow> nat \<Rightarrow> py_error + 'a ndarray" where
  "scaled_mean stats params site prior i =
     and_then (site_mean stats site i) (\<lambda>x.
     and_then (dict_getitem params prior) (\<lambda>mu.
     np_mul x mu))"

text \<open>
  The body of the loop for the index \<open>i\<close>: lines 67 to 79 first, then the dictionary
  display of lines 84 to 99, whose values Python evaluates in the order they are written.
\<close>

definition get_output_record ::
  "string list \<Rightarrow> 'a::times stats \<Rightarrow> 'a params \<Rightarrow> nat \<Rightarrow> py_error + 'a variant_output" where
  "get_output_record vids_list stats params i =
     and_then (list_getitem vids_list i) (\<lambda>vid0.
     and_then (if dict_contains stats ''eps_pe''
               then and_then (scaled_mean stats params ''eps_pe'' ''mu_eps_pe'' i) (\<lambda>v. Inr (Np v))
               else Inr (PyInt 0)) (\<lambda>eps_pe0.
     and_then (if dict_contains stats ''phi_pe''
               then and_then (site_mean stats ''phi_pe'' i) (\<lambda>v. Inr (Np v))
               else Inr (PyInt 0)) (\<lambda>phi_pe0.
     and_then (if dict_contains stats ''m_pe''
               then and_then (site_mean stats ''m_pe'' i) (\<lambda>v. Inr (Np v))
               else Inr (PyInt 0)) (\<lambda>p_m_pe0.
     and_then (list_getitem vids_list i) (\<lambda>vid1.
     and_then (site_mean_row stats ''z'' i) (\<lambda>freq_z0.
     and_then (site_mean stats ''m_sr1'' i) (\<lambda>p_m_sr10.
     and_then (site_mean stats ''m_sr2'' i) (\<lambda>p_m_sr20.
     and_then (scaled_mean stats params ''eps_sr1'' ''mu_eps_sr1'' i) (\<lambda>eps_sr10.
     and_then (scaled_mean stats params ''eps_sr2'' ''mu_eps_sr2'' i) (\<lambda>eps_sr20.
     and_then (site_mean stats ''phi_sr1'' i) (\<lambda>phi_sr10.
     and_then (site_mean stats ''phi_sr2'' i) (\<lambda>phi_sr20.
     Inr \<lparr> vid = vid1, freq_z = freq_z0, p_m_pe = p_m_pe0,
           p_m_sr1 = p_m_sr10, p_m_sr2 = p_m_sr20,
           eps_pe = eps_pe0, eps_sr1 = eps_sr10, eps_sr2 = eps_sr20,
           phi_pe = phi_pe0, phi_sr1 = phi_sr10, phi_sr2 = phi_sr20 \<rparr>))))))))))))"

text \<open>
  The loop \<open>for i in range(n_variants)\<close>, over the indices still to visit and the
  \<open>output_list\<close> built so far; an exception in the body ends it.
\<close>

fun get_output_loop ::
  "string list \<Rightarrow> 'a::times stats \<Rightarrow> 'a params \<Rightarrow> nat list \<Rightarrow> 'a variant_output list
    \<Rightarrow> py_error + 'a variant_output list" where
  "get_output_loop vids_list stats params [] output_list = Inr output_list"
| "get_output_loop vids_list stats params (i # rest) output_list =
     (case get_output_record vids_list stats params i of
        Inl e \<Rightarrow> Inl e
      | Inr r \<Rightarrow> get_output_loop vids_list stats params rest (output_list @ [r]))"

definition get_output ::
  "string list \<Rightarrow> 'a::times stats \<Rightarrow> 'a params \<Rightarrow> py_error + 'a variant_output list" where
  "get_output vids_list stats params =
     (let n_variants = length vids_list
      in get_output_loop vids_list stats params [0..<n_variants] [])"

subsection \<open>The shape of the statistics\<close>

text \<open>
  The data model asks that every statistic of a site be a dictionary with a \<open>mean\<close> entry,
  an array whose first axis has one entry per variant. The predicates below say so for one
  site, for the sites \<open>get_output\<close> always reads, for the paired-end sites it reads when
  they are there, and for whatever sites happen to be there.
\<close>

definition is_array :: "'a ndarray \<Rightarrow> bool" where
  "is_array a = (case a of NdScalar x \<Rightarrow> False | NdArray xs \<Rightarrow> True)"

definition mean_rows :: "'a site_stats \<Rightarrow> nat \<Rightarrow> bool" where
  "mean_rows d n =
     (case d ''mean'' of
        None \<Rightarrow> False
      | Some (NdScalar x) \<Rightarrow> False
      | Some (NdArray xs) \<Rightarrow> length xs = n)"

definition mean_matrix_rows :: "'a site_stats \<Rightarrow> nat \<Rightarrow> bool" where
  "mean_matrix_rows d n =
     (case d ''mean'' of
        None \<Rightarrow> False
      | Some (NdScalar x) \<Rightarrow> False
      | Some (NdArray xs) \<Rightarrow> length xs = n \<and> list_all is_array xs)"

definition site_ok :: "('a site_stats \<Rightarrow> nat \<Rightarrow> bool) \<Rightarrow> 'a stats \<Rightarrow> string \<Rightarrow> nat \<Rightarrow> bool" where
  "site_ok shape stats site n = (case stats site of None \<Rightarrow> False | Some d \<Rightarrow> shape d n)"

definition site_ok_if_present ::
  "('a site_stats \<Rightarrow> nat \<Rightarrow> bool) \<Rightarrow> 'a stats \<Rightarrow> string \<Rightarrow> nat \<Rightarrow> bool" where
  "site_ok_if_present shape stats site n =
     (case stats site of None \<Rightarrow> True | Some d \<Rightarrow> shape d n)"

definition prior_ok :: "'a params \<Rightarrow> string \<Rightarrow> bool" where
  "prior_ok params key =
     (case params key of None \<Rightarrow> False | Some (JNum m) \<Rightarrow> True | Some (JStr s) \<Rightarrow> False)"

definition prior_ok_if_present :: "'a params \<Rightarrow> string \<Rightarrow> bool" where
  "prior_ok_if_present params key =
     (case params key of None \<Rightarrow> True | Some (JNum m) \<Rightarrow> True | Some (JStr s) \<Rightarrow> False)"

definition required_sites_ok :: "nat \<Rightarrow> 'a stats \<Rightarrow> 'a params \<Rightarrow> bool" where
  "required_sites_ok n stats params \<longleftrightarrow>
     site_ok mean_matrix_rows stats ''z'' n \<and>
     site_ok mean_rows stats ''m_sr1'' n \<and>
     site_ok mean_rows stats ''m_sr2'' n \<and>
     site_ok mean_rows stats ''eps_sr1'' n \<and> prior_ok params ''mu_eps_sr1'' \<and>
     site_ok mean_rows stats ''eps_sr2'' n \<and> prior_ok params ''mu_eps_sr2'' \<and>
     site_ok mean_rows stats ''phi_sr1'' n \<and>
     site_ok mean_rows stats ''phi_sr2'' n"

definition optional_sites_ok :: "nat \<Rightarrow> 'a stats \<Rightarrow> 'a params \<Rightarrow> bool" where
  "optional_sites_ok n stats params \<longleftrightarrow>
     site_ok_if_present mean_rows stats ''eps_pe'' n \<and>
     (if dict_contains stats ''eps_pe'' then prior_ok params ''mu_eps_pe'' else True) \<and>
     site_ok_if_present mean_rows stats ''phi_pe'' n \<and>
     site_ok_if_present mean_rows stats ''m_pe'' n"

definition present_sites_ok :: "nat \<Rightarrow> 'a stats \<Rightarrow> 'a params \<Rightarrow> bool" where
  "present_sites_ok n stats params \<longleftrightarrow>
     site_ok_if_present mean_rows stats ''eps_pe'' n \<and> prior_ok_if_present params ''mu_eps_pe'' \<and>
     site_ok_if_present mean_rows stats ''phi_pe'' n \<and>
     site_ok_if_present mean_rows stats ''m_pe'' n \<and>
     site_ok_if_present mean_matrix_rows stats ''z'' n \<and>
     site_ok_if_present mean_rows stats ''m_sr1'' n \<and>
     site_ok_if_present mean_rows stats ''m_sr2'' n \<and>
     site_ok_if_present mean_rows stats ''eps_sr1'' n \<and> prior_ok_if_present params ''mu_eps_sr1'' \<and>
     site_ok_if_present mean_rows stats ''eps_sr2'' n \<and> prior_ok_if_present params ''mu_eps_sr2'' \<and>
     site_ok_if_present mean_rows stats ''phi_sr1'' n \<and>
     site_ok_if_present mean_rows stats ''phi_sr2'' n"



subsection \<open>Sample inputs\<close>

text \<open>
  The end-to-end scenario of the specification, used for the closed instances below: two
  variants, the hyperparameters of its \<open>vars.json\<close>, and statistics for the split-read
  sites and \<open>z\<close> only, each with a \<open>mean\<close> array of two rows.
\<close>

definition sample_vids :: "string list" where
  "sample_vids = [''sv1'', ''sv2'']"

definition sample_params :: "real params" where
  "sample_params =
     [''k'' \<mapsto> JNum 2, ''mu_eps_pe'' \<mapsto> JNum 1, ''mu_eps_sr1'' \<mapsto> JNum 1,
      ''mu_eps_sr2'' \<mapsto> JNum 1, ''var_phi_pe'' \<mapsto> JNum 1, ''var_phi_sr1'' \<mapsto> JNum 1,
      ''var_phi_sr2'' \<mapsto> JNum 1, ''read_length'' \<mapsto> JNum 150, ''loss'' \<mapsto> JStr ''elbo'']"

definition sample_stats :: "real stats" where
  "sample_stats =
     [''z'' \<mapsto> [''mean'' \<mapsto> NdArray [NdArray [NdScalar 1, NdScalar 0],
                                     NdArray [NdScalar 0, NdScalar 1]]],
      ''m_sr1'' \<mapsto> [''mean'' \<mapsto> NdArray [NdScalar 1, NdScalar 0]],
      ''m_sr2'' \<mapsto> [''mean'' \<mapsto> NdArray [NdScalar 0, NdScalar 1]],
      ''eps_sr1'' \<mapsto> [''mean'' \<mapsto> NdArray [NdScalar 2, NdScalar 4]],
      ''eps_sr2'' \<mapsto> [''mean'' \<mapsto> NdArray [NdScalar 6, NdScalar 8]],
      ''phi_sr1'' \<mapsto> [''mean'' \<mapsto> NdArray [NdScalar 3, NdScalar 5]],
      ''phi_sr2'' \<mapsto> [''mean'' \<mapsto> NdArray [NdScalar 7, NdScalar 9]]]"

text \<open>The same statistics with a paired-end noise rate, and a prior of 2 to scale it by.\<close>

definition sample_stats_pe :: "real stats" where
  "sample_stats_pe =
     sample_stats(''eps_pe'' \<mapsto> [''mean'' \<mapsto> NdArray [NdScalar 3, NdScalar 5]])"

definition sample_params_pe :: "real params" where
  "sample_params_pe = sample_params(''mu_eps_pe'' \<mapsto> JNum 2)"

subsection \<open>The process and its collaborators\<close>

text \<open>
  The values of the \<open>args\<close> dictionary: integers (the seed, the sampling budgets) and
  strings (paths, the device, the SV type).
\<close>

datatype arg = AInt int | AStr string

datatype log_level = DEBUG | INFO | WARNING | ERROR | CRITICAL

text \<open>The calls the module makes on pyro's process-wide parameter store, in order.\<close>

datatype pyro_call = ClearParamStore | ParamStoreLoad string arg

text \<open>
  The process-wide state of the inference libraries that \<open>run\<close> resets: pyro's two
  validation switches, pyro's parameter store, and the states of the random number
  generators of numpy, torch and pyro (of an unspecified type \<open>'g\<close>).
\<close>

record ('a, 'g) runtime =
  pyro_validation :: bool
  distributions_validation :: bool
  param_store :: "string \<rightharpoonup> 'a ndarray"
  np_rng :: 'g
  torch_rng :: 'g
  pyro_rng :: 'g

text \<open>
  The state \<open>run\<close> works on: the regular files on disk (path to contents), the runtime of
  the libraries, the configuration of the root logger, the records handed to \<open>logging\<close>,
  and the calls made on the parameter store.
\<close>

record ('a, 'g) world =
  files :: "string \<rightharpoonup> string"
  rt :: "('a, 'g) runtime"
  log_config :: "log_level option"
  log_records :: "(log_level \<times> string) list"
  pyro_calls :: "pyro_call list"

text \<open>
  The collaborators of the module, taken as parameters: none of them is defined in
  \<open>genotype.py\<close>. Each returns an exception or a value. The model's constructor and its two
  inference methods read and change the runtime; the readers of \<open>io\<close> and of torch read the
  files; the writer of \<open>io\<close> changes them. \<open>'t\<close> is the type of the members of \<open>SVTypes\<close>,
  \<open>'m\<close> of the model object, \<open>'d\<close> of the tensor bundle and \<open>'y\<close> of torch's dtypes.
\<close>

record ('a, 'g, 't, 'm, 'd, 'y) env =
  json_load :: "string \<Rightarrow> py_error + 'a params"
  np_random_seed :: "arg \<Rightarrow> py_error + 'g"
  torch_manual_seed :: "arg \<Rightarrow> py_error + 'g"
  pyro_set_rng_seed :: "arg \<Rightarrow> py_error + 'g"
  SVTypes :: "arg \<Rightarrow> py_error + 't"
  SVGenotyperPyroModel ::
    "'t \<Rightarrow> 'y \<Rightarrow> arg \<Rightarrow> (string \<times> 'a json) list \<Rightarrow> ('a, 'g) runtime
      \<Rightarrow> (py_error + 'm) \<times> ('a, 'g) runtime"
  torch_load :: "(string \<rightharpoonup> string) \<Rightarrow> string \<Rightarrow> arg \<Rightarrow> py_error + (string \<rightharpoonup> 'a ndarray)"
  io_load_list :: "(string \<rightharpoonup> string) \<Rightarrow> string \<Rightarrow> py_error + string list"
  io_load_tensors :: "(string \<rightharpoonup> string) \<Rightarrow> string \<Rightarrow> 't \<Rightarrow> 'y \<Rightarrow> arg \<Rightarrow> py_error + 'd"
  run_predictive ::
    "'m \<Rightarrow> 'd \<Rightarrow> arg \<Rightarrow> arg \<Rightarrow> ('a, 'g) runtime \<Rightarrow> (py_error + 'a stats) \<times> ('a, 'g) runtime"
  run_discrete ::
    "'m \<Rightarrow> 'd \<Rightarrow> 't \<Rightarrow> arg \<Rightarrow> arg \<Rightarrow> ('a, 'g) runtime
      \<Rightarrow> (py_error + 'a stats) \<times> ('a, 'g) runtime"
  io_write_variant_output ::
    "arg \<Rightarrow> 'a variant_output list \<Rightarrow> (string \<rightharpoonup> string) \<Rightarrow> py_error + (string \<rightharpoonup> string)"

subsection \<open>Statements that act on the world\<close>

text \<open>
  A statement takes the world and gives an exception or a value, and the world it leaves.
  \<open>then_do\<close> runs one statement after another; an exception ends the sequence and keeps
  the world reached so far.
\<close>

type_synonym ('x, 'w) action = "'w \<Rightarrow> (py_error + 'x) \<times> 'w"

definition then_do :: "('x, 'w) action \<Rightarrow> ('x \<Rightarrow> ('z, 'w) action) \<Rightarrow> ('z, 'w) action" where
  "then_do m f w = (case m w of (Inl e, w') \<Rightarrow> (Inl e, w') | (Inr x, w') \<Rightarrow> f x w')"

text \<open>An expression that leaves the world alone.\<close>

definition lift :: "py_error + 'x \<Rightarrow> ('x, 'w) action" where
  "lift r w = (r, w)"

text \<open>A call that reads and changes the runtime of the libraries.\<close>

definition external ::
  "(('a, 'g) runtime \<Rightarrow> (py_error + 'x) \<times> ('a, 'g) runtime) \<Rightarrow> ('x, ('a, 'g) world) action" where
  "external f w = (case f (rt w) of (r, rt') \<Rightarrow> (r, w\<lparr>rt := rt'\<rparr>))"

text \<open>A call that reads the files.\<close>

definition read_files ::
  "((string \<rightharpoonup> string) \<Rightarrow> py_error + 'x) \<Rightarrow> ('x, ('a, 'g) world) action" where
  "read_files f w = (f (files w), w)"

text \<open>A call that writes files: an exception leaves them as they were.\<close>

definition write_files ::
  "((string \<rightharpoonup> string) \<Rightarrow> py_error + (string \<rightharpoonup> string)) \<Rightarrow> (unit, ('a, 'g) world) action" where
  "write_files f w =
     (case f (files w) of Inl e \<Rightarrow> (Inl e, w) | Inr fs \<Rightarrow> (Inr (), w\<lparr>files := fs\<rparr>))"

text \<open>
  \<open>logging.basicConfig(level=logging.INFO, ...)\<close> configures the root logger unless it is
  configured already.
\<close>

definition logging_basicConfig :: "log_level \<Rightarrow> (unit, ('a, 'g) world) action" where
  "logging_basicConfig level w =
     (Inr (), case log_config w of None \<Rightarrow> w\<lparr>log_config := Some level\<rparr> | Some l \<Rightarrow> w)"

text \<open>\<open>logging.warning(msg)\<close> hands a record of level \<open>WARNING\<close> to the root logger.\<close>

definition logging_warning :: "string \<Rightarrow> (unit, ('a, 'g) world) action" where
  "logging_warning msg w = (Inr (), w\<lparr>log_records := log_records w @ [(WARNING, msg)]\<rparr>)"

definition pyro_enable_validation :: "bool \<Rightarrow> (unit, ('a, 'g) world) action" where
  "pyro_enable_validation b w = (Inr (), w\<lparr>rt := (rt w)\<lparr>pyro_validation := b\<rparr>\<rparr>)"

definition pyro_distributions_enable_validation :: "bool \<Rightarrow> (unit, ('a, 'g) world) action" where
  "pyro_distributions_enable_validation b w =
     (Inr (), w\<lparr>rt := (rt w)\<lparr>distributions_validation := b\<rparr>\<rparr>)"

text \<open>\<open>pyro.clear_param_store()\<close> empties the parameter store.\<close>

definition pyro_clear_param_store :: "(unit, ('a, 'g) world) action" where
  "pyro_clear_param_store w =
     (Inr (), w\<lparr>rt := (rt w)\<lparr>param_store := Map.empty\<rparr>,
                pyro_calls := pyro_calls w @ [ClearParamStore]\<rparr>)"

text \<open>
  \<open>pyro.get_param_store().load(path, map_location=torch.device(device))\<close>: torch reads the
  file onto the device, and pyro sets each parameter read in the store, over what the
  store holds under that name and beside what it holds under other names.
\<close>

definition param_store_load ::
  "('a, 'g, 't, 'm, 'd, 'y) env \<Rightarrow> string \<Rightarrow> arg \<Rightarrow> (unit, ('a, 'g) world) action" where
  "param_store_load env path device w =
     (let w' = w\<lparr>pyro_calls := pyro_calls w @ [ParamStoreLoad path device]\<rparr>
      in case torch_load env (files w) path device of
           Inl e \<Rightarrow> (Inl e, w')
         | Inr state \<Rightarrow>
             (Inr (), w'\<lparr>rt := (rt w)\<lparr>param_store := param_store (rt w) ++ state\<rparr>\<rparr>))"

text \<open>Seeding a generator puts it in the state its library derives from the seed.\<close>

definition np_random_seed_call ::
  "('a, 'g, 't, 'm, 'd, 'y) env \<Rightarrow> arg \<Rightarrow> (unit, ('a, 'g) world) action" where
  "np_random_seed_call env seed w =
     (case np_random_seed env seed of
        Inl e \<Rightarrow> (Inl e, w)
      | Inr g \<Rightarrow> (Inr (), w\<lparr>rt := (rt w)\<lparr>np_rng := g\<rparr>\<rparr>))"

definition torch_manual_seed_call ::
  "('a, 'g, 't, 'm, 'd, 'y) env \<Rightarrow> arg \<Rightarrow> (unit, ('a, 'g) world) action" where
  "torch_manual_seed_call env seed w =
     (case torch_manual_seed env seed of
        Inl e \<Rightarrow> (Inl e, w)
      | Inr g \<Rightarrow> (Inr (), w\<lparr>rt := (rt w)\<lparr>torch_rng := g\<rparr>\<rparr>))"

definition pyro_set_rng_seed_call ::
  "('a, 'g, 't, 'm, 'd, 'y) env \<Rightarrow> arg \<Rightarrow> (unit, ('a, 'g) world) action" where
  "pyro_set_rng_seed_call env seed w =
     (case pyro_set_rng_seed env seed of
        Inl e \<Rightarrow> (Inl e, w)
      | Inr g \<Rightarrow> (Inr (), w\<lparr>rt := (rt w)\<lparr>pyro_rng := g\<rparr>\<rparr>))"

text \<open>
  \<open>os.path.join(a, b)\<close> on POSIX paths: \<open>b\<close> alone when it is absolute, else \<open>a\<close> and \<open>b\<close>
  with a separator between them unless \<open>a\<close> is empty or ends with one; \<open>TypeError\<close> when an
  argument is no string.
\<close>

definition os_path_join :: "arg \<Rightarrow> arg \<Rightarrow> py_error + string" where
  "os_path_join a b =
     (case a of
        AInt i \<Rightarrow> Inl TypeError
      | AStr p \<Rightarrow>
          (case b of
             AInt j \<Rightarrow> Inl TypeError
           | AStr q \<Rightarrow>
               Inr (if q \<noteq> [] \<and> hd q = CHR ''/'' then q
                    else if p = [] \<or> last p = CHR ''/'' then p @ q
                    else p @ ''/'' @ q)))"

text \<open>The keyword arguments read from a dictionary, in the order they are written.\<close>

fun lookup_all :: "(string \<rightharpoonup> 'v) \<Rightarrow> string list \<Rightarrow> py_error + (string \<times> 'v) list" where
  "lookup_all d [] = Inr []"
| "lookup_all d (key # keys) =
     and_then (dict_getitem d key) (\<lambda>v.
     and_then (lookup_all d keys) (\<lambda>vs.
     Inr ((key, v) # vs)))"

subsection \<open>\<open>load_model\<close> (lines 153 to 159) and \<open>load_param_store\<close> (lines 162 to 164)\<close>

text \<open>
  \<open>load_model\<close> returns the parsed file, or \<open>None\<close> after a warning when there is no such
  file; an exception of \<open>json.load\<close> propagates.
\<close>

definition load_model ::
  "('a, 'g, 't, 'm, 'd, 'y) env \<Rightarrow> string \<Rightarrow> ('a params option, ('a, 'g) world) action" where
  "load_model env base_path w =
     (let model_path = base_path @ ''.vars.json''
      in case files w model_path of
           Some content \<Rightarrow>
             (case json_load env content of
                Inl e \<Rightarrow> (Inl e, w)
              | Inr v \<Rightarrow> (Inr (Some v), w))
         | None \<Rightarrow>
             then_do (logging_warning (''Could not locate model file '' @ model_path))
               (\<lambda>u. lift (Inr None)) w)"

definition load_param_store ::
  "('a, 'g, 't, 'm, 'd, 'y) env \<Rightarrow> string \<Rightarrow> arg \<Rightarrow> (unit, ('a, 'g) world) action" where
  "load_param_store env base_path device =
     then_do pyro_clear_param_store (\<lambda>u.
     param_store_load env (base_path @ ''.param_store.pyro'') device)"

subsection \<open>\<open>run\<close> (lines 13 to 54)\<close>

text \<open>Lines 14 to 23: logging, validation, the parameter store and the three seeds.\<close>

definition run_setup ::
  "('a, 'g, 't, 'm, 'd, 'y) env \<Rightarrow> (string \<rightharpoonup> arg) \<Rightarrow> (unit, ('a, 'g) world) action" where
  "run_setup env args =
     then_do (logging_basicConfig INFO) (\<lambda>u.
     then_do (pyro_enable_validation True) (\<lambda>u.
     then_do (pyro_distributions_enable_validation True) (\<lambda>u.
     then_do pyro_clear_param_store (\<lambda>u.
     then_do (lift (dict_getitem args ''random_seed'')) (\<lambda>seed1.
     then_do (np_random_seed_call env seed1) (\<lambda>u.
     then_do (lift (dict_getitem args ''random_seed'')) (\<lambda>seed2.
     then_do (torch_manual_seed_call env seed2) (\<lambda>u.
     then_do (lift (dict_getitem args ''random_seed'')) (\<lambda>seed3.
     pyro_set_rng_seed_call env seed3)))))))))"

text \<open>
  Lines 31 to 54, with the hyperparameters at hand: the model, the parameter store, the
  inputs, the two inferences, the projection and the output file. The keyword arguments
  of the constructor are looked up in the order of lines 31 to 34.
\<close>

definition run_genotype ::
  "('a::times, 'g, 't, 'm, 'd, 'y) env \<Rightarrow> (string \<rightharpoonup> arg) \<Rightarrow> 'y \<Rightarrow> 't \<Rightarrow> string \<Rightarrow> 'a params
    \<Rightarrow> ('a variant_output list, ('a, 'g) world) action" where
  "run_genotype env args default_dtype svtype base_path params =
     then_do (lift (lookup_all params
        [''k'', ''mu_eps_pe'', ''mu_eps_sr1'', ''mu_eps_sr2'', ''var_phi_pe'', ''var_phi_sr1'',
         ''var_phi_sr2'', ''read_length''])) (\<lambda>priors.
     then_do (lift (dict_getitem args ''device'')) (\<lambda>device1.
     then_do (lift (dict_getitem params ''loss'')) (\<lambda>loss.
     then_do (external (SVGenotyperPyroModel env svtype default_dtype device1
        (priors @ [(''loss'', loss)]))) (\<lambda>model.
     then_do (lift (dict_getitem args ''device'')) (\<lambda>device2.
     then_do (load_param_store env base_path device2) (\<lambda>u.
     then_do (read_files (\<lambda>fs. io_load_list env fs (base_path @ ''.vids.list''))) (\<lambda>vids_list.
     then_do (lift (dict_getitem args ''device'')) (\<lambda>device3.
     then_do (read_files (\<lambda>fs. io_load_tensors env fs base_path svtype default_dtype device3))
        (\<lambda>data.
     then_do (lift (dict_getitem args ''genotype_predictive_samples'')) (\<lambda>n_samples.
     then_do (lift (dict_getitem args ''genotype_predictive_iter'')) (\<lambda>n_iter.
     then_do (external (run_predictive env model data n_samples n_iter)) (\<lambda>posterior.
     then_do (lift (dict_getitem args ''genotype_discrete_log_freq'')) (\<lambda>log_freq.
     then_do (lift (dict_getitem args ''genotype_discrete_samples'')) (\<lambda>n_discrete.
     then_do (external (run_discrete env model data svtype log_freq n_discrete))
        (\<lambda>discrete_posterior.
     then_do (lift (get_output vids_list (posterior ++ discrete_posterior) params)) (\<lambda>output.
     then_do (lift (dict_getitem args ''output'')) (\<lambda>output_path.
     then_do (write_files (io_write_variant_output env output_path output)) (\<lambda>u.
     lift (Inr output)))))))))))))))))))"

text \<open>
  Lines 24 to 29, then the rest: the SV type, the base path, the hyperparameters, and the
  \<open>RuntimeError\<close> when \<open>load_model\<close> returned \<open>None\<close>.
\<close>

definition run_model ::
  "('a::times, 'g, 't, 'm, 'd, 'y) env \<Rightarrow> (string \<rightharpoonup> arg) \<Rightarrow> 'y
    \<Rightarrow> ('a variant_output list, ('a, 'g) world) action" where
  "run_model env args default_dtype =
     then_do (lift (dict_getitem args ''svtype'')) (\<lambda>name.
     then_do (lift (SVTypes env name)) (\<lambda>svtype.
     then_do (lift (dict_getitem args ''model_dir'')) (\<lambda>model_dir.
     then_do (lift (dict_getitem args ''model_name'')) (\<lambda>model_name.
     then_do (lift (os_path_join model_dir model_name)) (\<lambda>base_path.
     then_do (load_model env base_path) (\<lambda>loaded.
     case loaded of
       None \<Rightarrow> lift (Inl (RuntimeError (''Model at not found: '' @ base_path)))
     | Some params \<Rightarrow> run_genotype env args default_dtype svtype base_path params))))))"

definition run ::
  "('a::times, 'g, 't, 'm, 'd, 'y) env \<Rightarrow> (string \<rightharpoonup> arg) \<Rightarrow> 'y
    \<Rightarrow> ('a variant_output list, ('a, 'g) world) action" where
  "run env args default_dtype =
     then_do (run_setup env args) (\<lambda>u. run_model env args default_dtype)"

subsection \<open>What the collaborators can see\<close>

text \<open>
  Two worlds agree when they have the same files and the same runtime: they may differ in
  the logging configuration, the log records and the calls recorded so far. A statement
  keeps the agreement when, from worlds that agree, it gives the same outcome and
  leaves worlds that agree.
\<close>

definition agree :: "('a, 'g) world \<Rightarrow> ('a, 'g) world \<Rightarrow> bool" where
  "agree w1 w2 \<longleftrightarrow> files w1 = files w2 \<and> rt w1 = rt w2"

definition keeps_agreement :: "('x, ('a, 'g) world) action \<Rightarrow> bool" where
  "keeps_agreement m \<longleftrightarrow>
     (\<forall>w1 w2. agree w1 w2 \<longrightarrow> fst (m w1) = fst (m w2) \<and> agree (snd (m w1)) (snd (m w2)))"

subsection \<open>Sample collaborators\<close>

text \<open>
  Collaborators for the closed instances: generator states are numbers, and the sample
  inference reads every part of the runtime it is given, so that a generator left
  unseeded or a parameter left in the store would show in the output. The seeds put the
  three generators in the states \<open>seed\<close>, \<open>seed + 1\<close> and \<open>seed + 2\<close>.
\<close>

definition sample_predictive :: "(real, nat) runtime \<Rightarrow> real stats" where
  "sample_predictive r =
     [''eps_sr1'' \<mapsto> [''mean'' \<mapsto> NdArray [NdScalar (real (np_rng r)),
                                         NdScalar (real (torch_rng r))]],
      ''eps_sr2'' \<mapsto> [''mean'' \<mapsto> NdArray [NdScalar (real (pyro_rng r)), NdScalar 8]],
      ''phi_sr1'' \<mapsto> [''mean'' \<mapsto> NdArray
         [case param_store r ''stale'' of None \<Rightarrow> NdScalar 3 | Some v \<Rightarrow> v, NdScalar 5]],
      ''phi_sr2'' \<mapsto> [''mean'' \<mapsto> NdArray
         [case param_store r ''loc'' of None \<Rightarrow> NdScalar 0 | Some v \<Rightarrow> v, NdScalar 9]]]"

definition sample_discrete :: "real stats" where
  "sample_discrete =
     [''z'' \<mapsto> [''mean'' \<mapsto> NdArray [NdArray [NdScalar 1, NdScalar 0],
                                     NdArray [NdScalar 0, NdScalar 1]]],
      ''m_sr1'' \<mapsto> [''mean'' \<mapsto> NdArray [NdScalar 1, NdScalar 0]],
      ''m_sr2'' \<mapsto> [''mean'' \<mapsto> NdArray [NdScalar 0, NdScalar 1]]]"

definition sample_env :: "(real, nat, string, unit, unit, unit) env" where
  "sample_env =
     \<lparr> json_load = (\<lambda>content.
         if content = ''{vars}'' then Inr sample_params else Inl (OtherError ''JSONDecodeError'')),
       np_random_seed = (\<lambda>seed. case seed of AInt n \<Rightarrow> Inr (nat n) | AStr s \<Rightarrow> Inl TypeError),
       torch_manual_seed =
         (\<lambda>seed. case seed of AInt n \<Rightarrow> Inr (nat n + 1) | AStr s \<Rightarrow> Inl TypeError),
       pyro_set_rng_seed =
         (\<lambda>seed. case seed of AInt n \<Rightarrow> Inr (nat n + 2) | AStr s \<Rightarrow> Inl TypeError),
       SVTypes = (\<lambda>name. case name of
           AInt n \<Rightarrow> Inl (KeyError [])
         | AStr s \<Rightarrow> if s = ''DEL'' \<or> s = ''DUP'' \<or> s = ''INS'' \<or> s = ''INV''
                    then Inr s else Inl (KeyError s)),
       SVGenotyperPyroModel = (\<lambda>svtype dtype device kwargs r. (Inr (), r)),
       torch_load = (\<lambda>fs path device. case fs path of
           None \<Rightarrow> Inl (OtherError ''FileNotFoundError'')
         | Some content \<Rightarrow> Inr [''loc'' \<mapsto> NdScalar 1]),
       io_load_list = (\<lambda>fs path. case fs path of
           None \<Rightarrow> Inl (OtherError ''FileNotFoundError'')
         | Some content \<Rightarrow> Inr sample_vids),
       io_load_tensors = (\<lambda>fs base_path svtype dtype device. Inr ()),
       run_predictive = (\<lambda>model data n_samples n_iter r.
         (Inr (sample_predictive r), r\<lparr>np_rng := Suc (np_rng r)\<rparr>)),
       run_discrete = (\<lambda>model data svtype log_freq n_samples r.
         (Inr sample_discrete, r\<lparr>torch_rng := Suc (torch_rng r)\<rparr>)),
       io_write_variant_output = (\<lambda>path out fs. case path of
           AInt n \<Rightarrow> Inl TypeError
         | AStr p \<Rightarrow> Inr (fs(p \<mapsto> ''written''))) \<rparr>"

definition sample_args :: "string \<rightharpoonup> arg" where
  "sample_args =
     [''random_seed'' \<mapsto> AInt 42, ''svtype'' \<mapsto> AStr ''DEL'', ''model_dir'' \<mapsto> AStr [],
      ''model_name'' \<mapsto> AStr ''m'', ''device'' \<mapsto> AStr ''cpu'',
      ''genotype_predictive_samples'' \<mapsto> AInt 100, ''genotype_predictive_iter'' \<mapsto> AInt 10,
      ''genotype_discrete_log_freq'' \<mapsto> AInt 50, ''genotype_discrete_samples'' \<mapsto> AInt 100,
      ''output'' \<mapsto> AStr ''out.tsv'']"

text \<open>
  A process that has run before (generators advanced, a parameter in the store), with the
  three files of the model \<open>m\<close> on disk; the same process with no file at all; and another
  process with the same files, whose runtime and log differ.
\<close>

definition sample_world :: "(real, nat) world" where
  "sample_world =
     \<lparr> files = [''m.vars.json'' \<mapsto> ''{vars}'', ''m.param_store.pyro'' \<mapsto> ''params'',
                ''m.vids.list'' \<mapsto> ''sv1 sv2''],
       rt = \<lparr> pyro_validation = False, distributions_validation = False,
              param_store = [''stale'' \<mapsto> NdScalar 7], np_rng = 5, torch_rng = 6, pyro_rng = 7 \<rparr>,
       log_config = None, log_records = [], pyro_calls = [] \<rparr>"

definition sample_world_no_files :: "(real, nat) world" where
  "sample_world_no_files = sample_world\<lparr>files := Map.empty\<rparr>"

definition sample_world_other :: "(real, nat) world" where
  "sample_world_other =
     sample_world\<lparr>rt := \<lparr> pyro_validation = True, distributions_validation = False,
                           param_store = [''old'' \<mapsto> NdScalar 9], np_rng = 1, torch_rng = 2,
                           pyro_rng = 3 \<rparr>,
                  log_config := Some ERROR, log_records := [(INFO, ''earlier'')]\<rparr>"

definition sample_output :: "real variant_output list" where
  "sample_output =
     [\<lparr> vid = ''sv1'', freq_z = NdArray [NdScalar 1, NdScalar 0], p_m_pe = PyInt 0,
         p_m_sr1 = NdScalar 1, p_m_sr2 = NdScalar 0,
         eps_pe = PyInt 0, eps_sr1 = NdScalar 42, eps_sr2 = NdScalar 44,
         phi_pe = PyInt 0, phi_sr1 = NdScalar 3, phi_sr2 = NdScalar 1 \<rparr>,
      \<lparr> vid = ''sv2'', freq_z = NdArray [NdScalar 0, NdScalar 1], p_m_pe = PyInt 0,
         p_m_sr1 = NdScalar 0, p_m_sr2 = NdScalar 1,
         eps_pe = PyInt 0, eps_sr1 = NdScalar 43, eps_sr2 = NdScalar 8,
         phi_pe = PyInt 0, phi_sr1 = NdScalar 5, phi_sr2 = NdScalar 9 \<rparr>]"

section \<open>Properties of \<open>get_output\<close>\<close>

subsection \<open>Auxiliary facts\<close>

lemma and_then_Inr_iff: "and_then r f = Inr y \<longleftrightarrow> (\<exists>x. r = Inr x \<and> f x = Inr y)"
  by (cases r) (simp_all add: and_then_def)


lemma and_then_Inr [simp]: "and_then (Inr x) f = f x"
  by (simp add: and_then_def)

lemma and_then_Inl [simp]: "and_then (Inl e) f = Inl e"
  by (simp add: and_then_def)

lemma get_output_loop_Inr:
  "get_output_loop vs st ps is acc = Inr out \<Longrightarrow>
   \<exists>rs. out = acc @ rs \<and> list_all2 (\<lambda>i r. get_output_record vs st ps i = Inr r) is rs"
proof (induction "is" arbitrary: acc)
  case Nil
  then show ?case by simp
next
  case (Cons i rest)
  then obtain r where r: "get_output_record vs st ps i = Inr r"
    and l: "get_output_loop vs st ps rest (acc @ [r]) = Inr out"
    by (auto split: sum.splits)
  from Cons.IH [OF l] obtain rs where "out = (acc @ [r]) @ rs"
    "list_all2 (\<lambda>i r. get_output_record vs st ps i = Inr r) rest rs" by blast
  with r show ?case by (intro exI [of _ "r # rs"]) simp
qed

lemma get_output_loop_ok:
  "list_all2 (\<lambda>i r. get_output_record vs st ps i = Inr r) is rs \<Longrightarrow>
   get_output_loop vs st ps is acc = Inr (acc @ rs)"
  by (induction "is" rs arbitrary: acc rule: list_all2_induct) simp_all

lemma get_output_Inr_iff:
  "get_output vs st ps = Inr out \<longleftrightarrow>
   length out = length vs \<and> (\<forall>i<length vs. get_output_record vs st ps i = Inr (out ! i))"
proof
  assume "get_output vs st ps = Inr out"
  then have "list_all2 (\<lambda>i r. get_output_record vs st ps i = Inr r) [0..<length vs] out"
    using get_output_loop_Inr [of vs st ps "[0..<length vs]" "[]" out]
    by (simp add: get_output_def)
  then show "length out = length vs \<and> (\<forall>i<length vs. get_output_record vs st ps i = Inr (out ! i))"
    by (auto simp: list_all2_conv_all_nth)
next
  assume "length out = length vs \<and> (\<forall>i<length vs. get_output_record vs st ps i = Inr (out ! i))"
  then have "list_all2 (\<lambda>i r. get_output_record vs st ps i = Inr r) [0..<length vs] out"
    by (auto simp: list_all2_conv_all_nth)
  then show "get_output vs st ps = Inr out"
    using get_output_loop_ok [of vs st ps "[0..<length vs]" out "[]"]
    by (simp add: get_output_def)
qed

lemma get_output_returns:
  assumes "\<forall>i<length vs. \<exists>r. get_output_record vs st ps i = Inr r"
  shows "\<exists>out. get_output vs st ps = Inr out"
proof -
  from assms obtain f where f: "\<forall>i<length vs. get_output_record vs st ps i = Inr (f i)"
    by metis
  have "get_output vs st ps = Inr (map f [0..<length vs])"
    unfolding get_output_Inr_iff using f by simp
  then show ?thesis ..
qed


lemma site_mean_ok:
  "site_ok mean_rows stats site n \<Longrightarrow> i < n \<Longrightarrow> \<exists>x. site_mean stats site i = Inr x"
  by (auto simp: site_ok_def mean_rows_def site_mean_def dict_getitem_def nd_getitem_def
      split: option.splits ndarray.splits)

lemma is_array_iff: "is_array a \<longleftrightarrow> (\<exists>ys. a = NdArray ys)"
  by (cases a) (simp_all add: is_array_def)

lemma nd_getrow_ok:
  "list_all is_array xs \<Longrightarrow> i < length xs \<Longrightarrow> nd_getrow (NdArray xs) i = Inr (xs ! i)"
  by (auto simp: nd_getrow_def list_all_length is_array_iff)

lemma site_mean_row_ok:
  "site_ok mean_matrix_rows stats site n \<Longrightarrow> i < n \<Longrightarrow> \<exists>x. site_mean_row stats site i = Inr x"
  by (auto simp: site_ok_def mean_matrix_rows_def site_mean_row_def dict_getitem_def
      nd_getrow_ok split: option.splits ndarray.splits)

lemma scaled_mean_ok:
  "site_ok mean_rows stats site n \<Longrightarrow> prior_ok params key \<Longrightarrow> i < n \<Longrightarrow>
   \<exists>x. scaled_mean stats params site key i = Inr x"
  using site_mean_ok [of stats site n i]
  by (auto simp: scaled_mean_def prior_ok_def dict_getitem_def np_mul_def
      split: option.splits json.splits)




lemma site_mean_absent: "stats site = None \<Longrightarrow> site_mean stats site i = Inl (KeyError site)"
  by (simp add: site_mean_def dict_getitem_def)

lemma site_mean_row_absent:
  "stats site = None \<Longrightarrow> site_mean_row stats site i = Inl (KeyError site)"
  by (simp add: site_mean_row_def dict_getitem_def)

lemma scaled_mean_absent:
  "stats site = None \<or> params key = None \<Longrightarrow> \<exists>e. scaled_mean stats params site key i = Inl e"
  by (cases "site_mean stats site i")
     (auto simp: scaled_mean_def site_mean_absent dict_getitem_def)

text \<open>What a successful body says of each field.\<close>

lemma get_output_record_Inr:
  assumes "get_output_record vs st ps i = Inr r"
  shows "i < length vs" "vid r = vs ! i"
    "site_mean_row st ''z'' i = Inr (freq_z r)"
    "site_mean st ''m_sr1'' i = Inr (p_m_sr1 r)"
    "site_mean st ''m_sr2'' i = Inr (p_m_sr2 r)"
    "scaled_mean st ps ''eps_sr1'' ''mu_eps_sr1'' i = Inr (eps_sr1 r)"
    "scaled_mean st ps ''eps_sr2'' ''mu_eps_sr2'' i = Inr (eps_sr2 r)"
    "site_mean st ''phi_sr1'' i = Inr (phi_sr1 r)"
    "site_mean st ''phi_sr2'' i = Inr (phi_sr2 r)"
    "if dict_contains st ''eps_pe''
     then \<exists>v. scaled_mean st ps ''eps_pe'' ''mu_eps_pe'' i = Inr v \<and> eps_pe r = Np v
     else eps_pe r = PyInt 0"
    "if dict_contains st ''phi_pe''
     then \<exists>v. site_mean st ''phi_pe'' i = Inr v \<and> phi_pe r = Np v
     else phi_pe r = PyInt 0"
    "if dict_contains st ''m_pe''
     then \<exists>v. site_mean st ''m_pe'' i = Inr v \<and> p_m_pe r = Np v
     else p_m_pe r = PyInt 0"
  using assms
  by (auto simp: get_output_record_def and_then_Inr_iff list_getitem_def split: if_splits)

lemma dict_contains_iff: "dict_contains d k \<longleftrightarrow> d k \<noteq> None"
  by (simp add: dict_contains_def split: option.splits)

lemma site_ok_if_present_Some:
  "site_ok_if_present shape stats site n \<Longrightarrow> stats site \<noteq> None \<Longrightarrow> site_ok shape stats site n"
  by (auto simp: site_ok_if_present_def site_ok_def)

lemma dict_getitem_Inr_iff: "dict_getitem d k = Inr v \<longleftrightarrow> d k = Some v"
  by (simp add: dict_getitem_def split: option.splits)

lemma np_mul_Inr_iff: "np_mul x p = Inr v \<longleftrightarrow> (\<exists>mu. p = JNum mu \<and> v = nd_scale x mu)"
  by (cases p) (auto simp: np_mul_def)

lemma scaled_mean_Inr:
  assumes "scaled_mean stats params site key i = Inr v"
  shows "\<exists>d m x mu. stats site = Some d \<and> d ''mean'' = Some m \<and> nd_getitem m i = Inr x \<and>
           params key = Some (JNum mu) \<and> v = nd_scale x mu"
  using assms
  by (auto simp: scaled_mean_def site_mean_def and_then_Inr_iff dict_getitem_Inr_iff
      np_mul_Inr_iff)



lemma get_output_record_ok:
  assumes req: "required_sites_ok (length vs) st ps"
    and opt: "optional_sites_ok (length vs) st ps"
    and i: "i < length vs"
  shows "\<exists>r. get_output_record vs st ps i = Inr r"
proof -
  obtain e_pe where e_pe: "(if dict_contains st ''eps_pe''
               then and_then (scaled_mean st ps ''eps_pe'' ''mu_eps_pe'' i) (\<lambda>v. Inr (Np v))
               else Inr (PyInt 0)) = Inr e_pe"
  proof (cases "dict_contains st ''eps_pe''")
    case True
    with opt have "site_ok mean_rows st ''eps_pe'' (length vs)" "prior_ok ps ''mu_eps_pe''"
      by (auto simp: optional_sites_ok_def dict_contains_iff dest: site_ok_if_present_Some)
    from scaled_mean_ok [OF this i] True that show ?thesis by auto
  next
    case False
    with that show ?thesis by simp
  qed
  obtain f_pe where f_pe: "(if dict_contains st ''phi_pe''
               then and_then (site_mean st ''phi_pe'' i) (\<lambda>v. Inr (Np v))
               else Inr (PyInt 0)) = Inr f_pe"
  proof (cases "dict_contains st ''phi_pe''")
    case True
    with opt have "site_ok mean_rows st ''phi_pe'' (length vs)"
      by (auto simp: optional_sites_ok_def dict_contains_iff dest: site_ok_if_present_Some)
    from site_mean_ok [OF this i] True that show ?thesis by auto
  next
    case False
    with that show ?thesis by simp
  qed
  obtain m_pe where m_pe: "(if dict_contains st ''m_pe''
               then and_then (site_mean st ''m_pe'' i) (\<lambda>v. Inr (Np v))
               else Inr (PyInt 0)) = Inr m_pe"
  proof (cases "dict_contains st ''m_pe''")
    case True
    with opt have "site_ok mean_rows st ''m_pe'' (length vs)"
      by (auto simp: optional_sites_ok_def dict_contains_iff dest: site_ok_if_present_Some)
    from site_mean_ok [OF this i] True that show ?thesis by auto
  next
    case False
    with that show ?thesis by simp
  qed
  obtain z where z: "site_mean_row st ''z'' i = Inr z"
    using req i site_mean_row_ok [of st "''z''" "length vs" i]
    by (auto simp: required_sites_ok_def)
  obtain m1 where m1: "site_mean st ''m_sr1'' i = Inr m1"
    using req i site_mean_ok [of st "''m_sr1''" "length vs" i]
    by (auto simp: required_sites_ok_def)
  obtain m2 where m2: "site_mean st ''m_sr2'' i = Inr m2"
    using req i site_mean_ok [of st "''m_sr2''" "length vs" i]
    by (auto simp: required_sites_ok_def)
  obtain e1 where e1: "scaled_mean st ps ''eps_sr1'' ''mu_eps_sr1'' i = Inr e1"
    using req i scaled_mean_ok [of st "''eps_sr1''" "length vs" ps "''mu_eps_sr1''" i]
    by (auto simp: required_sites_ok_def)
  obtain e2 where e2: "scaled_mean st ps ''eps_sr2'' ''mu_eps_sr2'' i = Inr e2"
    using req i scaled_mean_ok [of st "''eps_sr2''" "length vs" ps "''mu_eps_sr2''" i]
    by (auto simp: required_sites_ok_def)
  obtain f1 where f1: "site_mean st ''phi_sr1'' i = Inr f1"
    using req i site_mean_ok [of st "''phi_sr1''" "length vs" i]
    by (auto simp: required_sites_ok_def)
  obtain f2 where f2: "site_mean st ''phi_sr2'' i = Inr f2"
    using req i site_mean_ok [of st "''phi_sr2''" "length vs" i]
    by (auto simp: required_sites_ok_def)
  show ?thesis
    unfolding get_output_record_def
    by (simp only: e_pe f_pe m_pe z m1 m2 e1 e2 f1 f2 list_getitem_def i if_True and_then_Inr)
       blast
qed

lemma get_output_well_formed:
  assumes "required_sites_ok (length vs) st ps" "optional_sites_ok (length vs) st ps"
  shows "\<exists>out. get_output vs st ps = Inr out"
  using assms by (intro get_output_returns) (simp add: get_output_record_ok)





subsection \<open>Evaluation on closed inputs\<close>

lemmas get_output_eval =
  get_output_def get_output_record_def scaled_mean_def site_mean_def site_mean_row_def
  dict_getitem_def dict_contains_def list_getitem_def nd_getitem_def nd_getrow_def np_mul_def

lemmas shape_eval =
  required_sites_ok_def optional_sites_ok_def present_sites_ok_def site_ok_def
  site_ok_if_present_def mean_rows_def mean_matrix_rows_def is_array_def prior_ok_def
  prior_ok_if_present_def dict_contains_def

lemma site_mean_eval:
  "stats site = Some d \<Longrightarrow> d ''mean'' = Some m \<Longrightarrow> site_mean stats site i = nd_getitem m i"
  by (simp add: site_mean_def dict_getitem_def)

lemma site_mean_row_eval:
  "stats site = Some d \<Longrightarrow> d ''mean'' = Some m \<Longrightarrow> site_mean_row stats site i = nd_getrow m i"
  by (simp add: site_mean_row_def dict_getitem_def)

lemma scaled_mean_eval:
  "stats site = Some d \<Longrightarrow> d ''mean'' = Some m \<Longrightarrow> params key = Some p \<Longrightarrow>
   scaled_mean stats params site key i = and_then (nd_getitem m i) (\<lambda>x. np_mul x p)"
  by (simp add: scaled_mean_def site_mean_eval dict_getitem_def and_then_def split: sum.splits)

lemma get_output_two:
  "get_output_record [a, b] stats params 0 = Inr r0 \<Longrightarrow>
   get_output_record [a, b] stats params (Suc 0) = Inr r1 \<Longrightarrow>
   get_output [a, b] stats params = Inr [r0, r1]"
  by (simp add: get_output_def)

lemmas sample_defs =
  sample_vids_def sample_stats_def sample_params_def sample_stats_pe_def sample_params_pe_def

lemma length_sample_vids: "length sample_vids = 2"
  by (simp add: sample_vids_def)

lemma sample_stats_ok:
  "required_sites_ok (length sample_vids) sample_stats sample_params \<and>
   optional_sites_ok (length sample_vids) sample_stats sample_params"
  by (simp add: shape_eval sample_defs)

lemma sample_stats_pe_ok:
  "required_sites_ok (length sample_vids) sample_stats_pe sample_params_pe \<and>
   optional_sites_ok (length sample_vids) sample_stats_pe sample_params_pe"
  by (simp add: shape_eval sample_defs)

lemma mean_only: "[''mean'' \<mapsto> m] ''mean'' = Some m"
  by simp

subsection \<open>The paired-end sites are optional\<close>

text \<open>
  Claim C1. Whenever \<open>get_output\<close> returns a list: if \<open>'eps_pe'\<close> is not a key of \<open>stats\<close>,
  every record has \<open>eps_pe\<close> equal to Python's \<open>0\<close>; if it is, the record of index \<open>i\<close> has
  \<open>eps_pe\<close> equal to \<open>stats['eps_pe']['mean'][i] * params['mu_eps_pe']\<close>; and if \<open>'phi_pe'\<close>
  or \<open>'m_pe'\<close> is not a key of \<open>stats\<close>, every record has \<open>phi_pe\<close> or \<open>p_m_pe\<close> equal to \<open>0\<close>.
  The absence raises nothing: when the sites that are always read are well-shaped and each
  paired-end site is either absent or well-shaped, \<open>get_output\<close> does return a list.
\<close>

theorem get_output_paired_end_sites:
  "(get_output vids_list stats params = Inr out \<longrightarrow>
      (stats ''eps_pe'' = None \<longrightarrow> (\<forall>r\<in>set out. eps_pe r = PyInt 0)) \<and>
      (\<forall>d. stats ''eps_pe'' = Some d \<longrightarrow>
         (\<forall>i<length out. \<exists>m x mu.
            d ''mean'' = Some m \<and> nd_getitem m i = Inr x \<and>
            params ''mu_eps_pe'' = Some (JNum mu) \<and>
            eps_pe (out ! i) = Np (nd_scale x mu))) \<and>
      (stats ''phi_pe'' = None \<longrightarrow> (\<forall>r\<in>set out. phi_pe r = PyInt 0)) \<and>
      (stats ''m_pe'' = None \<longrightarrow> (\<forall>r\<in>set out. p_m_pe r = PyInt 0))) \<and>
   (required_sites_ok (length vids_list) stats params \<and>
    optional_sites_ok (length vids_list) stats params \<longrightarrow>
      (\<exists>out'. get_output vids_list stats params = Inr out'))"
proof (intro conjI impI allI)
  assume ret: "get_output vids_list stats params = Inr out"
  then have len: "length out = length vids_list"
    and rec: "\<And>i. i < length out \<Longrightarrow> get_output_record vids_list stats params i = Inr (out ! i)"
    by (simp_all add: get_output_Inr_iff)
  {
    assume absent: "stats ''eps_pe'' = None"
    show "\<forall>r\<in>set out. eps_pe r = PyInt 0"
    proof
      fix r assume "r \<in> set out"
      then obtain i where i: "i < length out" "r = out ! i" by (auto simp: in_set_conv_nth)
      from get_output_record_Inr(10) [OF rec [OF i(1)]] absent i(2)
      show "eps_pe r = PyInt 0" by (simp add: dict_contains_iff)
    qed
  }
  {
    assume absent: "stats ''phi_pe'' = None"
    show "\<forall>r\<in>set out. phi_pe r = PyInt 0"
    proof
      fix r assume "r \<in> set out"
      then obtain i where i: "i < length out" "r = out ! i" by (auto simp: in_set_conv_nth)
      from get_output_record_Inr(11) [OF rec [OF i(1)]] absent i(2)
      show "phi_pe r = PyInt 0" by (simp add: dict_contains_iff)
    qed
  }
  {
    assume absent: "stats ''m_pe'' = None"
    show "\<forall>r\<in>set out. p_m_pe r = PyInt 0"
    proof
      fix r assume "r \<in> set out"
      then obtain i where i: "i < length out" "r = out ! i" by (auto simp: in_set_conv_nth)
      from get_output_record_Inr(12) [OF rec [OF i(1)]] absent i(2)
      show "p_m_pe r = PyInt 0" by (simp add: dict_contains_iff)
    qed
  }
  {
    fix d i
    assume present: "stats ''eps_pe'' = Some d" and i: "i < length out"
    from get_output_record_Inr(10) [OF rec [OF i]] present
    obtain v where v: "scaled_mean stats params ''eps_pe'' ''mu_eps_pe'' i = Inr v"
      "eps_pe (out ! i) = Np v"
      by (auto simp: dict_contains_iff)
    from scaled_mean_Inr [OF v(1)] present v(2)
    show "\<exists>m x mu. d ''mean'' = Some m \<and> nd_getitem m i = Inr x \<and>
            params ''mu_eps_pe'' = Some (JNum mu) \<and> eps_pe (out ! i) = Np (nd_scale x mu)"
      by auto
  }
next
  assume "required_sites_ok (length vids_list) stats params \<and>
    optional_sites_ok (length vids_list) stats params"
  then show "\<exists>out'. get_output vids_list stats params = Inr out'"
    by (simp add: get_output_well_formed)
qed

text \<open>
  An instance with \<open>eps_pe\<close> present (means 3 and 5, prior 2) and \<open>phi_pe\<close>, \<open>m_pe\<close> absent,
  and one with all three absent.
\<close>

theorem get_output_paired_end_sites_witness:
  "(\<exists>out. get_output sample_vids sample_stats_pe sample_params_pe = Inr out \<and>
      eps_pe (out ! 0) = Np (NdScalar 6) \<and> eps_pe (out ! 1) = Np (NdScalar 10) \<and>
      phi_pe (out ! 0) = PyInt 0 \<and> phi_pe (out ! 1) = PyInt 0 \<and>
      p_m_pe (out ! 0) = PyInt 0 \<and> p_m_pe (out ! 1) = PyInt 0) \<and>
   (\<exists>out. get_output sample_vids sample_stats sample_params = Inr out \<and>
      eps_pe (out ! 0) = PyInt 0 \<and> eps_pe (out ! 1) = PyInt 0)"
    (is "(\<exists>out. ?run1 out \<and> ?P out) \<and> (\<exists>out. ?run2 out \<and> ?Q out)")
proof -
  note pe = get_output_paired_end_sites [of sample_vids sample_stats_pe sample_params_pe]
  note sr = get_output_paired_end_sites [of sample_vids sample_stats sample_params]
  from sample_stats_pe_ok pe obtain out1 where out1: "?run1 out1" by blast
  then have len1: "length out1 = 2" by (simp add: get_output_Inr_iff length_sample_vids)
  from sample_stats_ok sr obtain out2 where out2: "?run2 out2" by blast
  then have len2: "length out2 = 2" by (simp add: get_output_Inr_iff length_sample_vids)
  have pe_sites: "sample_stats_pe ''eps_pe'' = Some [''mean'' \<mapsto> NdArray [NdScalar 3, NdScalar 5]]"
    "sample_stats_pe ''phi_pe'' = None" "sample_stats_pe ''m_pe'' = None"
    "sample_params_pe ''mu_eps_pe'' = Some (JNum 2)"
    by (simp_all add: sample_defs)
  have sr_sites: "sample_stats ''eps_pe'' = None"
    by (simp add: sample_defs)
  have "?P out1"
    using pe [of out1] out1 len1 pe_sites by (simp add: nd_getitem_def)
  moreover have "?Q out2"
    using sr [of out2] out2 len2 sr_sites by simp
  ultimately show ?thesis using out1 out2 by blast
qed

subsection \<open>One record per variant, in order\<close>

text \<open>
  Claim C2. A list returned by \<open>get_output\<close> has the length of \<open>vids_list\<close>; and when the
  statistics are well-shaped for \<open>len(vids_list)\<close> variants (every array read has that many
  entries along its first axis), \<open>get_output\<close> does return such a list. This holds for the
  empty \<open>vids_list\<close> as well.
\<close>

theorem get_output_length:
  "(get_output vids_list stats params = Inr out \<longrightarrow> length out = length vids_list) \<and>
   (required_sites_ok (length vids_list) stats params \<and>
    optional_sites_ok (length vids_list) stats params \<longrightarrow>
      (\<exists>out'. get_output vids_list stats params = Inr out' \<and> length out' = length vids_list))"
  using get_output_well_formed [of vids_list stats params]
  by (auto simp: get_output_Inr_iff)

theorem get_output_length_witness:
  "\<exists>out. get_output sample_vids sample_stats sample_params = Inr out \<and> length out = 2"
  using get_output_length [of sample_vids sample_stats sample_params] sample_stats_ok
  by (simp add: length_sample_vids)

text \<open>
  Claim C3. In a list returned by \<open>get_output\<close>, the record of index \<open>i\<close> has the \<open>vid\<close>
  \<open>vids_list[i]\<close>, for every \<open>i\<close> below \<open>len(vids_list)\<close>: the \<open>vid\<close>s of the output, read in
  order, are \<open>vids_list\<close>.
\<close>

theorem get_output_vid_order:
  assumes "get_output vids_list stats params = Inr out"
  shows "map vid out = vids_list \<and> (\<forall>i<length vids_list. vid (out ! i) = vids_list ! i)"
proof -
  from assms have len: "length out = length vids_list"
    and rec: "\<And>i. i < length vids_list \<Longrightarrow>
        get_output_record vids_list stats params i = Inr (out ! i)"
    by (simp_all add: get_output_Inr_iff)
  have nth: "vid (out ! i) = vids_list ! i" if "i < length vids_list" for i
    using get_output_record_Inr(2) [OF rec [OF that]] .
  with len show ?thesis by (simp add: list_eq_iff_nth_eq)
qed

theorem get_output_vid_order_witness:
  "\<exists>out. get_output sample_vids sample_stats sample_params = Inr out \<and>
     map vid out = [''sv1'', ''sv2''] \<and> vid (out ! 0) = ''sv1'' \<and> vid (out ! 1) = ''sv2''"
proof -
  from sample_stats_ok get_output_well_formed [of sample_vids sample_stats sample_params]
  obtain out where out: "get_output sample_vids sample_stats sample_params = Inr out"
    by blast
  from get_output_vid_order [OF out] have "map vid out = sample_vids"
    and "\<forall>i<length sample_vids. vid (out ! i) = sample_vids ! i" by blast+
  then have "map vid out = [''sv1'', ''sv2'']" "vid (out ! 0) = ''sv1''" "vid (out ! 1) = ''sv2''"
    by (simp_all add: sample_vids_def)
  with out show ?thesis by (intro exI [of _ out]) simp
qed

text \<open>
  Claim C10. For the empty \<open>vids_list\<close> the loop body never runs: \<open>get_output\<close> returns the
  empty list whatever \<open>stats\<close> and \<open>params\<close> hold, the empty dictionaries included.
\<close>

theorem get_output_empty: "get_output [] stats params = Inr []"
  by (simp add: get_output_def)

subsection \<open>The scenario of the specification\<close>

text \<open>
  Claim C6. For the two variants \<open>sv1\<close> and \<open>sv2\<close>, priors \<open>mu_eps_sr1\<close> and \<open>mu_eps_sr2\<close>
  equal to 1, and statistics without \<open>eps_pe\<close>, \<open>phi_pe\<close> and \<open>m_pe\<close> but with \<open>z\<close>, \<open>m_sr1\<close>,
  \<open>m_sr2\<close>, \<open>eps_sr1\<close>, \<open>eps_sr2\<close>, \<open>phi_sr1\<close> and \<open>phi_sr2\<close>, each with a \<open>mean\<close> array of two
  rows (those of \<open>z\<close> being arrays themselves): \<open>get_output\<close> returns exactly two records,
  with \<open>eps_pe\<close>, \<open>phi_pe\<close> and \<open>p_m_pe\<close> equal to \<open>0\<close>, \<open>freq_z\<close> the row \<open>i\<close> of the mean of \<open>z\<close>,
  \<open>p_m_sr1\<close>, \<open>p_m_sr2\<close>, \<open>phi_sr1\<close> and \<open>phi_sr2\<close> copied, and \<open>eps_sr1\<close>, \<open>eps_sr2\<close> the mean
  times the prior.
\<close>

theorem get_output_scenario:
  fixes stats :: "'a::{times,one} stats"
  assumes "stats ''eps_pe'' = None" and "stats ''phi_pe'' = None" and "stats ''m_pe'' = None"
    and "stats ''z'' = Some d_z" and "d_z ''mean'' = Some (NdArray [NdArray z0, NdArray z1])"
    and "stats ''m_sr1'' = Some d_m1" and "d_m1 ''mean'' = Some (NdArray [m10, m11])"
    and "stats ''m_sr2'' = Some d_m2" and "d_m2 ''mean'' = Some (NdArray [m20, m21])"
    and "stats ''eps_sr1'' = Some d_e1" and "d_e1 ''mean'' = Some (NdArray [e10, e11])"
    and "stats ''eps_sr2'' = Some d_e2" and "d_e2 ''mean'' = Some (NdArray [e20, e21])"
    and "stats ''phi_sr1'' = Some d_f1" and "d_f1 ''mean'' = Some (NdArray [f10, f11])"
    and "stats ''phi_sr2'' = Some d_f2" and "d_f2 ''mean'' = Some (NdArray [f20, f21])"
    and "params ''mu_eps_sr1'' = Some (JNum 1)" and "params ''mu_eps_sr2'' = Some (JNum 1)"
  shows "get_output [''sv1'', ''sv2''] stats params = Inr
     [\<lparr> vid = ''sv1'', freq_z = NdArray z0, p_m_pe = PyInt 0, p_m_sr1 = m10, p_m_sr2 = m20,
         eps_pe = PyInt 0, eps_sr1 = nd_scale e10 1, eps_sr2 = nd_scale e20 1,
         phi_pe = PyInt 0, phi_sr1 = f10, phi_sr2 = f20 \<rparr>,
      \<lparr> vid = ''sv2'', freq_z = NdArray z1, p_m_pe = PyInt 0, p_m_sr1 = m11, p_m_sr2 = m21,
         eps_pe = PyInt 0, eps_sr1 = nd_scale e11 1, eps_sr2 = nd_scale e21 1,
         phi_pe = PyInt 0, phi_sr1 = f11, phi_sr2 = f21 \<rparr>]"
proof -
  note absent = assms(1-3)
  note z = site_mean_row_eval [of stats "''z''" d_z, OF assms(4,5)]
  note m1 = site_mean_eval [of stats "''m_sr1''" d_m1, OF assms(6,7)]
    and m2 = site_mean_eval [of stats "''m_sr2''" d_m2, OF assms(8,9)]
  note e1 = scaled_mean_eval [of stats "''eps_sr1''" d_e1 _ params "''mu_eps_sr1''",
      OF assms(10,11,18)]
    and e2 = scaled_mean_eval [of stats "''eps_sr2''" d_e2 _ params "''mu_eps_sr2''",
      OF assms(12,13,19)]
  note f1 = site_mean_eval [of stats "''phi_sr1''" d_f1, OF assms(14,15)]
    and f2 = site_mean_eval [of stats "''phi_sr2''" d_f2, OF assms(16,17)]
  note sites = z m1 m2 e1 e2 f1 f2 nd_getitem_def nd_getrow_def np_mul_def
  show ?thesis
  proof (rule get_output_two)
    show "get_output_record [''sv1'', ''sv2''] stats params 0 = Inr
      \<lparr> vid = ''sv1'', freq_z = NdArray z0, p_m_pe = PyInt 0, p_m_sr1 = m10, p_m_sr2 = m20,
         eps_pe = PyInt 0, eps_sr1 = nd_scale e10 1, eps_sr2 = nd_scale e20 1,
         phi_pe = PyInt 0, phi_sr1 = f10, phi_sr2 = f20 \<rparr>"
      by (simp add: get_output_record_def dict_contains_def list_getitem_def absent sites)
    show "get_output_record [''sv1'', ''sv2''] stats params (Suc 0) = Inr
      \<lparr> vid = ''sv2'', freq_z = NdArray z1, p_m_pe = PyInt 0, p_m_sr1 = m11, p_m_sr2 = m21,
         eps_pe = PyInt 0, eps_sr1 = nd_scale e11 1, eps_sr2 = nd_scale e21 1,
         phi_pe = PyInt 0, phi_sr1 = f11, phi_sr2 = f21 \<rparr>"
      by (simp add: get_output_record_def dict_contains_def list_getitem_def absent sites)
  qed
qed

text \<open>The scenario itself, with numbers in the arrays.\<close>

theorem get_output_scenario_witness:
  "get_output [''sv1'', ''sv2''] sample_stats sample_params = Inr
     [\<lparr> vid = ''sv1'', freq_z = NdArray [NdScalar 1, NdScalar 0], p_m_pe = PyInt 0,
         p_m_sr1 = NdScalar 1, p_m_sr2 = NdScalar 0,
         eps_pe = PyInt 0, eps_sr1 = NdScalar 2, eps_sr2 = NdScalar 6,
         phi_pe = PyInt 0, phi_sr1 = NdScalar 3, phi_sr2 = NdScalar 7 \<rparr>,
      \<lparr> vid = ''sv2'', freq_z = NdArray [NdScalar 0, NdScalar 1], p_m_pe = PyInt 0,
         p_m_sr1 = NdScalar 0, p_m_sr2 = NdScalar 1,
         eps_pe = PyInt 0, eps_sr1 = NdScalar 4, eps_sr2 = NdScalar 8,
         phi_pe = PyInt 0, phi_sr1 = NdScalar 5, phi_sr2 = NdScalar 9 \<rparr>]"
proof -
  have absent: "sample_stats ''eps_pe'' = None" "sample_stats ''phi_pe'' = None"
    "sample_stats ''m_pe'' = None"
    by (simp_all add: sample_stats_def)
  have z: "sample_stats ''z'' = Some [''mean'' \<mapsto> NdArray [NdArray [NdScalar 1, NdScalar 0],
      NdArray [NdScalar 0, NdScalar 1]]]"
    by (simp add: sample_stats_def)
  have m1: "sample_stats ''m_sr1'' = Some [''mean'' \<mapsto> NdArray [NdScalar 1, NdScalar 0]]"
    and m2: "sample_stats ''m_sr2'' = Some [''mean'' \<mapsto> NdArray [NdScalar 0, NdScalar 1]]"
    and e1: "sample_stats ''eps_sr1'' = Some [''mean'' \<mapsto> NdArray [NdScalar 2, NdScalar 4]]"
    and e2: "sample_stats ''eps_sr2'' = Some [''mean'' \<mapsto> NdArray [NdScalar 6, NdScalar 8]]"
    and f1: "sample_stats ''phi_sr1'' = Some [''mean'' \<mapsto> NdArray [NdScalar 3, NdScalar 5]]"
    and f2: "sample_stats ''phi_sr2'' = Some [''mean'' \<mapsto> NdArray [NdScalar 7, NdScalar 9]]"
    by (simp_all add: sample_stats_def)
  have mu: "sample_params ''mu_eps_sr1'' = Some (JNum 1)"
    "sample_params ''mu_eps_sr2'' = Some (JNum 1)"
    by (simp_all add: sample_params_def)
  note scenario = get_output_scenario [where stats = sample_stats and params = sample_params]
  from scenario [OF absent z mean_only m1 mean_only m2 mean_only e1 mean_only e2 mean_only
      f1 mean_only f2 mean_only mu]
  show ?thesis by simp
qed

subsection \<open>The other sites are required\<close>




section \<open>Properties of \<open>load_model\<close>, \<open>load_param_store\<close> and \<open>run\<close>\<close>

subsection \<open>Sequencing\<close>

lemma then_do_Inr: "m w = (Inr x, w') \<Longrightarrow> then_do m f w = f x w'"
  by (simp add: then_do_def)

lemma then_do_Inl: "m w = (Inl e, w') \<Longrightarrow> then_do m f w = (Inl e, w')"
  by (simp add: then_do_def)

lemma then_do_lift_Inr [simp]: "then_do (lift (Inr x)) f w = f x w"
  by (simp add: then_do_def lift_def)

lemma then_do_lift_Inl [simp]: "then_do (lift (Inl e)) f w = (Inl e, w)"
  by (simp add: then_do_def lift_def)


lemma then_do_cases:
  obtains e w' where "m w = (Inl e, w')" "then_do m f w = (Inl e, w')"
  | x w' where "m w = (Inr x, w')" "then_do m f w = f x w'"
proof (cases "m w")
  case (Pair r w')
  then show ?thesis by (cases r) (auto simp: then_do_def intro: that)
qed

lemma dict_getitem_Some [simp]: "d key = Some v \<Longrightarrow> dict_getitem d key = Inr v"
  by (simp add: dict_getitem_def)

lemma dict_getitem_None [simp]: "d key = None \<Longrightarrow> dict_getitem d key = Inl (KeyError key)"
  by (simp add: dict_getitem_def)

text \<open>The setup lines: what they leave, and that their outcome ignores the world.\<close>

lemma run_setup_files: "files (snd (run_setup env args w)) = files w"
  by (simp add: run_setup_def then_do_def lift_def logging_basicConfig_def
      pyro_enable_validation_def pyro_distributions_enable_validation_def
      pyro_clear_param_store_def np_random_seed_call_def torch_manual_seed_call_def
      pyro_set_rng_seed_call_def split: sum.splits option.splits)

lemma run_setup_outcome: "fst (run_setup env args w1) = fst (run_setup env args w2)"
  by (simp add: run_setup_def then_do_def lift_def logging_basicConfig_def
      pyro_enable_validation_def pyro_distributions_enable_validation_def
      pyro_clear_param_store_def np_random_seed_call_def torch_manual_seed_call_def
      pyro_set_rng_seed_call_def split: sum.splits option.splits)

lemma run_setup_Inr:
  assumes "run_setup env args w = (Inr u, w')"
  shows "\<exists>seed g1 g2 g3. args ''random_seed'' = Some seed \<and>
           np_random_seed env seed = Inr g1 \<and> torch_manual_seed env seed = Inr g2 \<and>
           pyro_set_rng_seed env seed = Inr g3 \<and>
           w' = w\<lparr>rt := \<lparr>pyro_validation = True, distributions_validation = True,
                         param_store = Map.empty, np_rng = g1, torch_rng = g2, pyro_rng = g3\<rparr>,
                  log_config := Some (case log_config w of None \<Rightarrow> INFO | Some l \<Rightarrow> l),
                  pyro_calls := pyro_calls w @ [ClearParamStore]\<rparr>"
  using assms
  by (auto simp: run_setup_def then_do_def lift_def logging_basicConfig_def
      pyro_enable_validation_def pyro_distributions_enable_validation_def
      pyro_clear_param_store_def np_random_seed_call_def torch_manual_seed_call_def
      pyro_set_rng_seed_call_def dict_getitem_def split: sum.splits option.splits)

lemma run_setup_ok:
  assumes "args ''random_seed'' = Some seed"
    and "np_random_seed env seed = Inr g1" and "torch_manual_seed env seed = Inr g2"
    and "pyro_set_rng_seed env seed = Inr g3"
  shows "run_setup env args w =
    (Inr (), w\<lparr>rt := \<lparr>pyro_validation = True, distributions_validation = True,
                         param_store = Map.empty, np_rng = g1, torch_rng = g2, pyro_rng = g3\<rparr>,
                  log_config := Some (case log_config w of None \<Rightarrow> INFO | Some l \<Rightarrow> l),
                  pyro_calls := pyro_calls w @ [ClearParamStore]\<rparr>)"
  using assms
  by (auto simp: run_setup_def then_do_def lift_def logging_basicConfig_def
      pyro_enable_validation_def pyro_distributions_enable_validation_def
      pyro_clear_param_store_def np_random_seed_call_def torch_manual_seed_call_def
      pyro_set_rng_seed_call_def dict_getitem_def split: sum.splits option.splits)

subsection \<open>Agreement is kept from line 24 on\<close>

lemma respectsI:
  assumes "\<And>w1 w2. agree w1 w2 \<Longrightarrow> fst (m w1) = fst (m w2) \<and> agree (snd (m w1)) (snd (m w2))"
  shows "keeps_agreement m"
  using assms by (simp add: keeps_agreement_def)

lemma respectsD:
  assumes "keeps_agreement m" "agree w1 w2"
  shows "fst (m w1) = fst (m w2)" "agree (snd (m w1)) (snd (m w2))"
  using assms by (simp_all add: keeps_agreement_def)

lemma then_do_respects:
  fixes m :: "('x, ('a, 'g) world) action" and f :: "'x \<Rightarrow> ('z, ('a, 'g) world) action"
  assumes m: "keeps_agreement m" and f: "\<And>x. keeps_agreement (f x)"
  shows "keeps_agreement (then_do m f)"
proof (rule respectsI)
  fix w1 w2 :: "('a, 'g) world"
  assume a: "agree w1 w2"
  obtain r1 v1 where m1: "m w1 = (r1, v1)" by (cases "m w1")
  obtain r2 v2 where m2: "m w2 = (r2, v2)" by (cases "m w2")
  from respectsD [OF m a] m1 m2 have r: "r1 = r2" and v: "agree v1 v2" by simp_all
  show "fst (then_do m f w1) = fst (then_do m f w2) \<and>
        agree (snd (then_do m f w1)) (snd (then_do m f w2))"
  proof (cases r2)
    case (Inl e)
    with m1 m2 r v show ?thesis by (simp add: then_do_def)
  next
    case (Inr x)
    with m1 m2 r respectsD [OF f [of x] v] show ?thesis by (simp add: then_do_def)
  qed
qed

lemma lift_respects: "keeps_agreement (lift r)"
  by (simp add: keeps_agreement_def lift_def)

lemma external_respects: "keeps_agreement (external f)"
  by (simp add: keeps_agreement_def external_def agree_def split: prod.splits)

lemma read_files_respects: "keeps_agreement (read_files f)"
  by (simp add: keeps_agreement_def read_files_def agree_def)

lemma write_files_respects: "keeps_agreement (write_files f)"
  by (simp add: keeps_agreement_def write_files_def agree_def split: sum.splits)

lemma load_model_respects: "keeps_agreement (load_model env base_path)"
  by (simp add: keeps_agreement_def load_model_def agree_def then_do_def lift_def
      logging_warning_def Let_def split: option.splits sum.splits)

lemma pyro_clear_param_store_respects: "keeps_agreement pyro_clear_param_store"
  by (simp add: keeps_agreement_def pyro_clear_param_store_def agree_def)

lemma param_store_load_respects: "keeps_agreement (param_store_load env path device)"
  by (auto simp: keeps_agreement_def param_store_load_def agree_def Let_def split: sum.splits)

lemma load_param_store_respects: "keeps_agreement (load_param_store env base_path device)"
  unfolding load_param_store_def
  by (intro then_do_respects pyro_clear_param_store_respects param_store_load_respects)

lemma case_option_respects:
  assumes "keeps_agreement a" and "\<And>p. keeps_agreement (b p)"
  shows "keeps_agreement (case x of None \<Rightarrow> a | Some p \<Rightarrow> b p)"
  using assms by (cases x) simp_all

lemma run_genotype_respects:
  "keeps_agreement (run_genotype env args default_dtype svtype base_path params)"
  unfolding run_genotype_def
  by (intro then_do_respects lift_respects external_respects read_files_respects
      write_files_respects load_param_store_respects)

lemma run_model_respects: "keeps_agreement (run_model env args default_dtype)"
  unfolding run_model_def
  by (intro then_do_respects lift_respects load_model_respects case_option_respects
      run_genotype_respects)

subsection \<open>The calls on the parameter store\<close>











subsection \<open>The sample run\<close>

lemma load_model_missing:
  assumes "files w (base_path @ ''.vars.json'') = None"
  shows "load_model env base_path w =
    (Inr None, w\<lparr>log_records := log_records w @
       [(WARNING, ''Could not locate model file '' @ base_path @ ''.vars.json'')]\<rparr>)"
  using assms by (simp add: load_model_def then_do_def logging_warning_def lift_def)


lemma sample_setup:
  "run_setup sample_env sample_args w =
    (Inr (), w\<lparr>rt := \<lparr>pyro_validation = True, distributions_validation = True,
                         param_store = Map.empty, np_rng = 42, torch_rng = 43, pyro_rng = 44\<rparr>,
                  log_config := Some (case log_config w of None \<Rightarrow> INFO | Some l \<Rightarrow> l),
                  pyro_calls := pyro_calls w @ [ClearParamStore]\<rparr>)"
  by (rule run_setup_ok [where seed = "AInt 42"]) (simp_all add: sample_env_def sample_args_def)

lemmas run_eval =
  run_model_def run_genotype_def then_do_def lift_def external_def read_files_def
  write_files_def load_model_def load_param_store_def param_store_load_def
  pyro_clear_param_store_def logging_warning_def os_path_join_def dict_getitem_def
  and_then_def Let_def

lemma sample_posterior:
  "get_output sample_vids
     (sample_predictive \<lparr>pyro_validation = True, distributions_validation = True,
        param_store = [''loc'' \<mapsto> NdScalar 1], np_rng = 42, torch_rng = 43, pyro_rng = 44\<rparr>
      ++ sample_discrete) sample_params = Inr sample_output"
  by (simp add: sample_predictive_def sample_discrete_def sample_params_def sample_vids_def
      sample_output_def get_output_eval map_add_def)

lemma sample_run_model:
  "run sample_env sample_args () w = run_model sample_env sample_args ()
     (w\<lparr>rt := \<lparr>pyro_validation = True, distributions_validation = True,
                         param_store = Map.empty, np_rng = 42, torch_rng = 43, pyro_rng = 44\<rparr>,
                  log_config := Some (case log_config w of None \<Rightarrow> INFO | Some l \<Rightarrow> l),
                  pyro_calls := pyro_calls w @ [ClearParamStore]\<rparr>)"
  by (simp add: run_def then_do_Inr [OF sample_setup])

lemma sample_params_lookup:
  "sample_params ''k'' = Some (JNum 2)" "sample_params ''mu_eps_pe'' = Some (JNum 1)"
  "sample_params ''mu_eps_sr1'' = Some (JNum 1)" "sample_params ''mu_eps_sr2'' = Some (JNum 1)"
  "sample_params ''var_phi_pe'' = Some (JNum 1)" "sample_params ''var_phi_sr1'' = Some (JNum 1)"
  "sample_params ''var_phi_sr2'' = Some (JNum 1)" "sample_params ''read_length'' = Some (JNum 150)"
  "sample_params ''loss'' = Some (JStr ''elbo'')"
  by (simp_all add: sample_params_def)

lemma sample_run:
  "fst (run sample_env sample_args () sample_world) = Inr sample_output"
  "files (snd (run sample_env sample_args () sample_world)) =
     (files sample_world)(''out.tsv'' \<mapsto> ''written'')"
  "pyro_calls (snd (run sample_env sample_args () sample_world)) =
     [ClearParamStore, ClearParamStore, ParamStoreLoad ''m.param_store.pyro'' (AStr ''cpu'')]"
  unfolding sample_run_model
  by (simp_all add: run_eval sample_env_def sample_args_def sample_world_def
      sample_params_lookup sample_posterior [unfolded sample_env_def])



subsection \<open>The hyperparameter file\<close>



text \<open>
  Claim C5. When the lines before \<open>load_model\<close> succeed (the seed is there and the three
  generators accept it, the SV type resolves, the two path components join to \<open>base_path\<close>)
  and there is no file \<open><base_path>.vars.json\<close>, \<open>run\<close> raises the \<open>RuntimeError\<close> of line 29.
  The world it leaves is the one after line 23 with the warning of \<open>load_model\<close> added:
  the files are untouched, so no output was written, and the generators are in their
  freshly seeded states, whatever the model, the readers, the inference and the writer
  would have done.
\<close>

theorem run_missing_model:
  assumes "args ''random_seed'' = Some seed"
    and "np_random_seed env seed = Inr g1" and "torch_manual_seed env seed = Inr g2"
    and "pyro_set_rng_seed env seed = Inr g3"
    and "args ''svtype'' = Some name" and "SVTypes env name = Inr svtype"
    and "args ''model_dir'' = Some model_dir" and "args ''model_name'' = Some model_name"
    and "os_path_join model_dir model_name = Inr base_path"
    and "files w (base_path @ ''.vars.json'') = None"
  shows "run env args default_dtype w =
      (Inl (RuntimeError (''Model at not found: '' @ base_path)),
       w\<lparr>rt := \<lparr>pyro_validation = True, distributions_validation = True,
                 param_store = Map.empty, np_rng = g1, torch_rng = g2, pyro_rng = g3\<rparr>,
          log_config := Some (case log_config w of None \<Rightarrow> INFO | Some l \<Rightarrow> l),
          log_records := log_records w @
            [(WARNING, ''Could not locate model file '' @ base_path @ ''.vars.json'')],
          pyro_calls := pyro_calls w @ [ClearParamStore]\<rparr>) \<and>
    files (snd (run env args default_dtype w)) = files w"
proof -
  let ?w1 = "w\<lparr>rt := \<lparr>pyro_validation = True, distributions_validation = True,
                 param_store = Map.empty, np_rng = g1, torch_rng = g2, pyro_rng = g3\<rparr>,
          log_config := Some (case log_config w of None \<Rightarrow> INFO | Some l \<Rightarrow> l),
          pyro_calls := pyro_calls w @ [ClearParamStore]\<rparr>"
  have prep: "run_setup env args w = (Inr (), ?w1)"
    using assms(1-4) by (rule run_setup_ok)
  have "files ?w1 (base_path @ ''.vars.json'') = None"
    using assms(10) by simp
  from load_model_missing [OF this, of env]
  have "run_model env args default_dtype ?w1 =
      (Inl (RuntimeError (''Model at not found: '' @ base_path)),
       ?w1\<lparr>log_records := log_records ?w1 @
            [(WARNING, ''Could not locate model file '' @ base_path @ ''.vars.json'')]\<rparr>)"
    using assms(5-9) by (simp add: run_model_def then_do_Inr lift_def)
  with prep show ?thesis by (simp add: run_def then_do_Inr)
qed

text \<open>The sample arguments in a process without files.\<close>

theorem run_missing_model_witness:
  "fst (run sample_env sample_args () sample_world_no_files)
     = Inl (RuntimeError ''Model at not found: m'') \<and>
   files (snd (run sample_env sample_args () sample_world_no_files)) = Map.empty \<and>
   log_records (snd (run sample_env sample_args () sample_world_no_files))
     = [(WARNING, ''Could not locate model file m.vars.json'')] \<and>
   rt (snd (run sample_env sample_args () sample_world_no_files))
     = \<lparr>pyro_validation = True, distributions_validation = True, param_store = Map.empty,
        np_rng = 42, torch_rng = 43, pyro_rng = 44\<rparr>"
proof -
  have args: "sample_args ''random_seed'' = Some (AInt 42)"
    "sample_args ''svtype'' = Some (AStr ''DEL'')" "sample_args ''model_dir'' = Some (AStr [])"
    "sample_args ''model_name'' = Some (AStr ''m'')"
    by (simp_all add: sample_args_def)
  have env: "np_random_seed sample_env (AInt 42) = Inr 42"
    "torch_manual_seed sample_env (AInt 42) = Inr 43"
    "pyro_set_rng_seed sample_env (AInt 42) = Inr 44"
    "SVTypes sample_env (AStr ''DEL'') = Inr ''DEL''"
    by (simp_all add: sample_env_def)
  have path: "os_path_join (AStr []) (AStr ''m'') = Inr ''m''"
    by (simp add: os_path_join_def)
  have absent: "files sample_world_no_files (''m'' @ ''.vars.json'') = None"
    by (simp add: sample_world_no_files_def)
  from run_missing_model [OF args(1) env(1-3) args(2) env(4) args(3,4) path absent, of "()"]
  show ?thesis by (simp add: sample_world_no_files_def sample_world_def)
qed

subsection \<open>The parameter store\<close>



subsection \<open>Determinism\<close>

text \<open>
  Claim C8. Two invocations of \<open>run\<close> with the same \<open>args\<close> (the seed among them), the same
  collaborators and the same files give the same outcome, the same output records or the
  same exception, and leave the same files, whatever the states of the three generators,
  the parameter store, the validation switches and the log were before each. The
  collaborators are functions of what they are given (the files, the runtime): that is
  the assumption that the external runtime has no nondeterminism of its own.
\<close>

theorem run_deterministic:
  assumes "files w1 = files w2"
  shows "fst (run env args default_dtype w1) = fst (run env args default_dtype w2) \<and>
         files (snd (run env args default_dtype w1)) = files (snd (run env args default_dtype w2))"
proof -
  obtain r1 v1 where s1: "run_setup env args w1 = (r1, v1)" by (cases "run_setup env args w1")
  obtain r2 v2 where s2: "run_setup env args w2 = (r2, v2)" by (cases "run_setup env args w2")
  from run_setup_outcome [of env args w1 w2] s1 s2 have r: "r1 = r2" by simp
  from run_setup_files [of env args w1] run_setup_files [of env args w2] s1 s2 assms
  have f: "files v1 = files v2" by simp
  show ?thesis
  proof (cases r2)
    case (Inl e)
    with s1 s2 r f show ?thesis by (simp add: run_def then_do_def)
  next
    case (Inr u)
    from run_setup_Inr [of env args w1 u v1] run_setup_Inr [of env args w2 u v2] s1 s2 r Inr
    have "rt v1 = rt v2" by auto
    with f have "agree v1 v2" by (simp add: agree_def)
    from respectsD [OF run_model_respects this, of env args default_dtype] s1 s2 r Inr
    show ?thesis by (simp add: run_def then_do_def agree_def)
  qed
qed

text \<open>
  Two sample processes with the same files and different generators, parameter stores and
  logs: both produce the sample output, whose noise rates are the seeded generator states.
\<close>

theorem run_deterministic_witness:
  "files sample_world = files sample_world_other \<and>
   rt sample_world \<noteq> rt sample_world_other \<and>
   fst (run sample_env sample_args () sample_world) = Inr sample_output \<and>
   fst (run sample_env sample_args () sample_world_other) = Inr sample_output"
proof -
  have f: "files sample_world = files sample_world_other"
    by (simp add: sample_world_other_def)
  have d: "rt sample_world \<noteq> rt sample_world_other"
    by (simp add: sample_world_other_def sample_world_def)
  from run_deterministic [OF f, of sample_env sample_args "()"] sample_run(1)
  have "fst (run sample_env sample_args () sample_world_other) = Inr sample_output"
    by simp
  with f d sample_run(1) show ?thesis by simp
qed

end
